theory Spec2Isabelle
  imports Main "HOL-Library.Word" "HOL-Library.Log_Nat"
begin

section \<open>JavaScript numbers\<close>

text \<open>
  A JavaScript number is an IEEE-754 binary64 value. A finite value is carried as the
  rational it denotes, so that an arithmetic operation is the exact operation followed by
  rounding to the nearest binary64 value, ties to the even significand. The model has one
  zero: the sign of a zero is observable only through a division by it, and \<open>app.js\<close>
  divides by the literal 1000 only.
\<close>

datatype jsnum = Fin rat | Infinity bool | NaN

definition pow2 :: "int \<Rightarrow> rat" where
  "pow2 k = (if 0 \<le> k then 2 ^ nat k else 1 / 2 ^ nat (- k))"

text \<open>The binary exponent of a positive rational: \<open>pow2 (ilog2 a) \<le> a < pow2 (ilog2 a + 1)\<close>.\<close>

definition ilog2 :: "rat \<Rightarrow> int" where
  "ilog2 a = (if 1 \<le> a then bitlen \<lfloor>a\<rfloor> - 1 else - bitlen (\<lceil>1 / a\<rceil> - 1))"

text \<open>Rounding to the nearest integer, a tie going to the even one.\<close>

definition rne :: "rat \<Rightarrow> int" where
  "rne x = (let f = \<lfloor>x\<rfloor>; r = x - of_int f
            in if r < 1 / 2 then f else if 1 / 2 < r then f + 1
               else if even f then f else f + 1)"

text \<open>
  Rounding a rational to binary64: 53 significant bits, exponents from \<open>-1022\<close> (below
  which the spacing stays that of the subnormal numbers) to \<open>1023\<close> (above which the
  result is an infinity).
\<close>

definition fl :: "rat \<Rightarrow> jsnum" where
  "fl x = (if x = 0 then Fin 0
           else let a = \<bar>x\<bar>;
                    e = max (ilog2 a) (- 1022);
                    q = pow2 (e - 52);
                    m = rne (a / q)
                in if 1023 < e \<or> (e = 1023 \<and> 2 ^ 53 \<le> m) then Infinity (x < 0)
                   else Fin (sgn x * (of_int m * q)))"

text \<open>The operators \<open>*\<close> and \<open>/\<close> of the language on numbers.\<close>

fun js_mul :: "jsnum \<Rightarrow> jsnum \<Rightarrow> jsnum" where
  "js_mul NaN _ = NaN"
| "js_mul _ NaN = NaN"
| "js_mul (Fin a) (Fin b) = fl (a * b)"
| "js_mul (Fin a) (Infinity s) = (if a = 0 then NaN else Infinity (s \<noteq> (a < 0)))"
| "js_mul (Infinity s) (Fin b) = (if b = 0 then NaN else Infinity (s \<noteq> (b < 0)))"
| "js_mul (Infinity s) (Infinity t) = Infinity (s \<noteq> t)"

fun js_div :: "jsnum \<Rightarrow> jsnum \<Rightarrow> jsnum" where
  "js_div NaN _ = NaN"
| "js_div _ NaN = NaN"
| "js_div (Fin a) (Fin b) =
     (if b = 0 then (if a = 0 then NaN else Infinity (a < 0)) else fl (a / b))"
| "js_div (Fin a) (Infinity s) = Fin 0"
| "js_div (Infinity s) (Fin b) = Infinity (s \<noteq> (b < 0))"
| "js_div (Infinity s) (Infinity t) = NaN"

text \<open>A decimal literal of the program text denotes the binary64 value nearest to it.\<close>

definition js_literal :: "rat \<Rightarrow> jsnum" where
  "js_literal r = fl r"

text \<open>
  A bound on what one rounding can change: one part in \<open>2 ^ 53\<close> of the exact
  value, or \<open>pow2 (- 1075)\<close> where the result is subnormal.
\<close>

definition rounding_bound :: "rat \<Rightarrow> rat" where
  "rounding_bound a = max (\<bar>a\<bar> / 2 ^ 53) (pow2 (- 1075))"

subsection \<open>\<open>Number.prototype.toFixed\<close>\<close>

text \<open>
  \<open>x.toFixed(f)\<close> is a string: the digits of the integer \<open>n\<close> for which \<open>n / 10 ^ f\<close>
  is nearest to the magnitude of \<open>x\<close> (the larger \<open>n\<close> on a tie), padded with zeros to
  \<open>f + 1\<close> digits, a point before the last \<open>f\<close> of them, and a minus sign when \<open>x\<close> is
  negative. A magnitude of \<open>10 ^ 21\<close> or more is printed by \<open>Number::toString\<close> in
  exponent notation instead; those digits are not spelled out here, the result is then
  the value under the constructor \<open>NumberToString\<close>.
\<close>

datatype js_string = Str string | NumberToString rat

definition digit :: "int \<Rightarrow> char" where
  "digit d = ''0123456789'' ! nat d"

function dec :: "int \<Rightarrow> string" where
  "dec n = (if n < 10 then [digit n] else dec (n div 10) @ [digit (n mod 10)])"
  by pat_completeness auto
termination
  by (relation "measure nat") auto

declare dec.simps [simp del]

definition round_half_up :: "rat \<Rightarrow> int" where
  "round_half_up x = \<lfloor>x + 1 / 2\<rfloor>"

definition point :: "nat \<Rightarrow> string \<Rightarrow> string" where
  "point f m = (let m' = replicate (f + 1 - length m) (CHR ''0'') @ m;
                    k = length m'
                in if f = 0 then m' else take (k - f) m' @ ''.'' @ drop (k - f) m')"

fun toFixed :: "jsnum \<Rightarrow> nat \<Rightarrow> js_string" where
  "toFixed NaN f = Str ''NaN''"
| "toFixed (Infinity s) f = Str (if s then ''-Infinity'' else ''Infinity'')"
| "toFixed (Fin x) f =
     (if 10 ^ 21 \<le> \<bar>x\<bar> then NumberToString x
      else Str ((if x < 0 then ''-'' else '''') @
                point f (dec (round_half_up (\<bar>x\<bar> * 10 ^ f)))))"

section \<open>The Modbus client and the effects of the program\<close>

text \<open>
  The Modbus client comes from the library \<open>modbus-serial\<close>; the program calls
  \<open>connectTCP\<close>, \<open>setID\<close> and \<open>readHoldingRegisters\<close> of it. What these do
  is a parameter of the model: transitions of a client state \<open>'t\<close>, a call either
  resolving with a value or rejecting with an error. The clock read by \<open>new Date()\<close>
  is part of that state.
\<close>

datatype js_error =
  PortNotOpenError | TransactionTimedOutError | ModbusException nat | OtherError string

record 't modbus =
  connectTCP :: "string \<Rightarrow> nat \<Rightarrow> 't \<Rightarrow> (js_error + unit) \<times> 't"
  setID :: "nat \<Rightarrow> 't \<Rightarrow> 't"
  readHoldingRegisters :: "nat \<Rightarrow> nat \<Rightarrow> 't \<Rightarrow> (js_error + 16 word list) \<times> 't"
  clock :: "'t \<Rightarrow> nat"

text \<open>
  Every call into the library and every line written to the console is recorded, in
  order, in the trace of the world the program runs in.
\<close>

datatype event =
  ConnectTCP string nat
| SetID nat
| ReadHoldingRegisters nat nat
| ConsoleLog string
| ConsoleError string js_error

record 't world =
  client :: 't
  trace :: "event list"

text \<open>
  A computation runs in a world and either throws (\<open>Inl\<close>) or returns (\<open>Inr\<close>);
  \<open>bind\<close> is sequencing with \<open>await\<close>, \<open>try_catch\<close> the statement
  \<open>try { ... } catch (err) { ... }\<close>.
\<close>

type_synonym ('t, 'a) comp = "'t world \<Rightarrow> (js_error + 'a) \<times> 't world"

definition ret :: "'a \<Rightarrow> ('t, 'a) comp" where
  "ret v w = (Inr v, w)"

definition bind :: "('t, 'a) comp \<Rightarrow> ('a \<Rightarrow> ('t, 'b) comp) \<Rightarrow> ('t, 'b) comp" where
  "bind m k w = (case m w of (Inl err, w') \<Rightarrow> (Inl err, w') | (Inr v, w') \<Rightarrow> k v w')"

definition try_catch :: "('t, 'a) comp \<Rightarrow> (js_error \<Rightarrow> ('t, 'a) comp) \<Rightarrow> ('t, 'a) comp" where
  "try_catch body handler w =
     (case body w of (Inl err, w') \<Rightarrow> handler err w' | (Inr v, w') \<Rightarrow> (Inr v, w'))"

definition emit :: "event \<Rightarrow> ('t, unit) comp" where
  "emit ev w = (Inr (), w\<lparr>trace := trace w @ [ev]\<rparr>)"

definition console_log :: "string \<Rightarrow> ('t, unit) comp" where
  "console_log s = emit (ConsoleLog s)"

definition console_error :: "string \<Rightarrow> js_error \<Rightarrow> ('t, unit) comp" where
  "console_error s err = emit (ConsoleError s err)"

definition call_connectTCP :: "'t modbus \<Rightarrow> string \<Rightarrow> nat \<Rightarrow> ('t, unit) comp" where
  "call_connectTCP lib host p w =
     (case connectTCP lib host p (client w) of
        (r, c) \<Rightarrow> (r, \<lparr>client = c, trace = trace w @ [ConnectTCP host p]\<rparr>))"

definition call_setID :: "'t modbus \<Rightarrow> nat \<Rightarrow> ('t, unit) comp" where
  "call_setID lib i w =
     (Inr (), \<lparr>client = setID lib i (client w), trace = trace w @ [SetID i]\<rparr>)"

definition call_readHoldingRegisters ::
    "'t modbus \<Rightarrow> nat \<Rightarrow> nat \<Rightarrow> ('t, 16 word list) comp" where
  "call_readHoldingRegisters lib addr n w =
     (case readHoldingRegisters lib addr n (client w) of
        (r, c) \<Rightarrow> (r, \<lparr>client = c, trace = trace w @ [ReadHoldingRegisters addr n]\<rparr>))"

definition new_Date :: "'t modbus \<Rightarrow> ('t, nat) comp" where
  "new_Date lib w = (Inr (clock lib (client w)), w)"

section \<open>The program \<open>app.js\<close>\<close>

subsection \<open>Configuration\<close>

text \<open>\<open>process.env.INVERTER_IP || '192.168.1.100'\<close>: an unset or empty variable is falsy.\<close>

definition INVERTER_IP :: "string option \<Rightarrow> string" where
  "INVERTER_IP v = (case v of None \<Rightarrow> ''192.168.1.100''
                    | Some s \<Rightarrow> if s = [] then ''192.168.1.100'' else s)"

definition MODBUS_PORT :: nat where
  "MODBUS_PORT = 502"

definition UNIT_ID :: nat where
  "UNIT_ID = 1"

record tariff =
  purchase :: jsnum
  sale :: jsnum

definition ENERGY_COST :: tariff where
  "ENERGY_COST = \<lparr>purchase = js_literal (25 / 100), sale = js_literal (12 / 100)\<rparr>"

subsection \<open>\<open>connectToInverter\<close>\<close>

definition connectToInverter :: "'t modbus \<Rightarrow> string option \<Rightarrow> ('t, unit) comp" where
  "connectToInverter lib env =
     try_catch
       (bind (call_connectTCP lib (INVERTER_IP env) MODBUS_PORT) (\<lambda>_.
        bind (call_setID lib UNIT_ID) (\<lambda>_.
        console_log ''Connected to Huawei inverter'')))
       (\<lambda>err. console_error ''Connection error:'' err)"

subsection \<open>\<open>fetchSolarData\<close>\<close>

record reading =
  activePower :: jsnum
  dailyEnergy :: jsnum
  voltage :: jsnum
  timestamp :: nat

text \<open>
  \<open>r.data[0]\<close> as an operand of \<open>*\<close>: the first 16-bit word of the response as a
  number; on an empty array the element is \<open>undefined\<close>, which \<open>*\<close> converts to NaN.
\<close>

definition data0 :: "16 word list \<Rightarrow> jsnum" where
  "data0 ws = (case ws of [] \<Rightarrow> NaN | x # _ \<Rightarrow> Fin (of_nat (unat x)))"

definition fetchSolarData :: "'t modbus \<Rightarrow> ('t, reading option) comp" where
  "fetchSolarData lib =
     try_catch
       (bind (call_readHoldingRegisters lib 32080 2) (\<lambda>powerData.
        bind (call_readHoldingRegisters lib 32106 2) (\<lambda>energyData.
        bind (call_readHoldingRegisters lib 32066 1) (\<lambda>voltageData.
        bind (new_Date lib) (\<lambda>date.
        ret (Some \<lparr>activePower = js_mul (data0 powerData) (Fin 100),
                   dailyEnergy = js_mul (data0 energyData) (Fin 100),
                   voltage = js_mul (data0 voltageData) (Fin 10),
                   timestamp = date\<rparr>))))))
       (\<lambda>err. bind (console_error ''Error fetching data:'' err) (\<lambda>_. ret None))"

subsection \<open>\<open>calculateCosts\<close>\<close>

record costs =
  dailySavings :: js_string
  potentialRevenue :: js_string
  energyProduced :: js_string

definition calculateCosts :: "reading \<Rightarrow> costs" where
  "calculateCosts data =
     (let dailyEnergyKWh = js_div (dailyEnergy data) (Fin 1000);
          savings = js_mul dailyEnergyKWh (purchase ENERGY_COST);
          revenue = js_mul dailyEnergyKWh (sale ENERGY_COST)
      in \<lparr>dailySavings = toFixed savings 2,
          potentialRevenue = toFixed revenue 2,
          energyProduced = toFixed dailyEnergyKWh 2\<rparr>)"

subsection \<open>The route \<open>/api/solar-data\<close>\<close>

datatype json = SolarData reading costs | Error string

record response =
  status :: nat
  body :: json

definition solar_data_route :: "'t modbus \<Rightarrow> ('t, response) comp" where
  "solar_data_route lib =
     bind (fetchSolarData lib) (\<lambda>data.
       case data of
         Some d \<Rightarrow> let costs = calculateCosts d
                   in ret \<lparr>status = 200, body = SolarData d costs\<rparr>
       | None \<Rightarrow> ret \<lparr>status = 500, body = Error ''Failed to fetch data''\<rparr>)"

section \<open>The combination of words the specification describes\<close>

text \<open>
  Not a function of \<open>app.js\<close>: the value the specification gives to a group of more
  than one word, the concatenation of its 16-bit words, most significant first. It is
  here to be compared with what \<open>fetchSolarData\<close> does.
\<close>

definition spec_combine_words :: "16 word list \<Rightarrow> nat" where
  "spec_combine_words ws = foldl (\<lambda>acc x. acc * 65536 + unat x) 0 ws"

section \<open>Amounts with two decimals\<close>

text \<open>
  The decimal numeral of \<open>n\<close> hundredths, for \<open>n\<close> not negative: the digits of the
  whole part, a point, and the two digits of the hundredths.
\<close>

definition two_decimals :: "int \<Rightarrow> string" where
  "two_decimals n = dec (n div 100) @ ''.'' @ [digit (n div 10 mod 10), digit (n mod 10)]"

section \<open>A simulated inverter\<close>

text \<open>
  One behaviour of the library, for running the program on concrete inputs: a client
  whose port is open or closed, a device that answers a given number of reads before the
  link times out, and a register file giving the words returned from an address. A read
  on a closed port is rejected, as the library does.
\<close>

record sim =
  port_open :: bool
  reads_left :: nat
  regs :: "nat \<Rightarrow> 16 word list"
  time :: nat

definition sim_modbus :: "bool \<Rightarrow> sim modbus" where
  "sim_modbus reachable =
     \<lparr>connectTCP = (\<lambda>host p s.
        if reachable then (Inr (), s\<lparr>port_open := True\<rparr>)
        else (Inl (OtherError ''ECONNREFUSED''), s)),
      setID = (\<lambda>i s. s),
      readHoldingRegisters = (\<lambda>addr n s.
        if \<not> port_open s then (Inl PortNotOpenError, s)
        else if reads_left s = 0
          then (Inl TransactionTimedOutError, s\<lparr>time := time s + 1\<rparr>)
        else (Inr (take n (regs s addr)),
              s\<lparr>reads_left := reads_left s - 1, time := time s + 1\<rparr>)),
      clock = time\<rparr>"

text \<open>A register file whose first word of each group carries the value.\<close>

definition regs_first :: "nat \<Rightarrow> 16 word list" where
  "regs_first a = (if a = 32080 then [50, 0] else if a = 32106 then [120, 0]
                   else if a = 32066 then [23] else [])"

text \<open>
  A register file holding the 32-bit values 50 and 120, most significant word first, at
  the two-word addresses.
\<close>

definition regs_wide :: "nat \<Rightarrow> 16 word list" where
  "regs_wide a = (if a = 32080 then [0, 50] else if a = 32106 then [0, 120]
                  else if a = 32066 then [23] else [])"

definition sim_world :: "bool \<Rightarrow> nat \<Rightarrow> (nat \<Rightarrow> 16 word list) \<Rightarrow> sim world" where
  "sim_world opn n rf =
     \<lparr>client = \<lparr>port_open = opn, reads_left = n, regs = rf, time = 1000\<rparr>, trace = []\<rparr>"

section \<open>Rounding to binary64\<close>

lemma pow2_powi: "pow2 k = 2 powi k"
  by (simp add: pow2_def power_int_def field_simps)

lemma pow2_pos [simp]: "0 < pow2 k"
  by (simp add: pow2_powi)

lemma pow2_add: "pow2 (j + k) = pow2 j * pow2 k"
  by (simp add: pow2_powi power_int_add)

lemma pow2_mono: "j \<le> k \<Longrightarrow> pow2 j \<le> pow2 k"
  by (simp add: pow2_powi power_int_increasing)

lemma pow2_nat: "pow2 (int n) = 2 ^ n"
  by (simp add: pow2_def)

lemma pow2_neg_nat: "pow2 (- int n) = 1 / 2 ^ n"
  by (simp add: pow2_powi power_int_minus field_simps)

lemma ilog2_floorlog:
  "ilog2 a = (if 1 \<le> a then int (floorlog 2 (nat \<lfloor>a\<rfloor>)) - 1
              else - int (floorlog 2 (nat (\<lceil>1 / a\<rceil> - 1))))"
  by (simp add: ilog2_def bitlen_def)

lemma ilog2_bounds:
  assumes "0 < a"
  shows "pow2 (ilog2 a) \<le> a \<and> a < pow2 (ilog2 a + 1)"
proof (cases "1 \<le> a")
  case True
  define n where "n = nat \<lfloor>a\<rfloor>"
  define k where "k = floorlog 2 n"
  from True have fl1: "1 \<le> \<lfloor>a\<rfloor>" by simp
  then have n: "0 < n" "of_nat n = (of_int \<lfloor>a\<rfloor> :: rat)" by (simp_all add: n_def)
  from floorlog_bounds [of n 2] n have b: "2 ^ (k - 1) \<le> n" "n < 2 ^ k"
    by (simp_all add: k_def)
  from b n have k: "0 < k" by (cases k) auto
  have e: "ilog2 a = int (k - 1)"
    using True k by (simp add: ilog2_floorlog k_def n_def)
  have "(2::rat) ^ (k - 1) \<le> of_nat n"
    using b(1) by simp
  also have "\<dots> \<le> a" by (simp add: n)
  finally have lo: "pow2 (ilog2 a) \<le> a" by (simp add: e pow2_nat)
  have "\<lfloor>a\<rfloor> < 2 ^ k"
    using b(2) fl1 by (simp add: n_def nat_less_iff)
  then have "a < of_int (2 ^ k)"
    using floor_less_iff by blast
  moreover have "ilog2 a + 1 = int k" using e k by simp
  ultimately have hi: "a < pow2 (ilog2 a + 1)" by (simp add: pow2_nat)
  from lo hi show ?thesis ..
next
  case False
  define c where "c = \<lceil>1 / a\<rceil>"
  define n where "n = nat (c - 1)"
  define k where "k = floorlog 2 n"
  from False assms have b1: "1 < 1 / a" by simp
  then have c2: "2 \<le> c" unfolding c_def by (simp add: less_ceiling_iff [symmetric])
  then have n: "0 < n" "int n = c - 1" by (simp_all add: n_def)
  from floorlog_bounds [of n 2] n have b: "2 ^ (k - 1) \<le> n" "n < 2 ^ k"
    by (simp_all add: k_def)
  from b n have k: "0 < k" by (cases k) auto
  have e: "ilog2 a = - int k"
    using False by (simp add: ilog2_floorlog k_def n_def c_def)
  have "int n < 2 ^ k" using b(2) by simp
  then have "c \<le> 2 ^ k" using n(2) by linarith
  then have "(of_int c :: rat) \<le> 2 ^ k" by simp
  moreover have "1 / a \<le> of_int c" by (simp add: c_def)
  ultimately have "1 / a \<le> 2 ^ k" by linarith
  then have lo: "pow2 (ilog2 a) \<le> a"
    using assms by (simp add: e pow2_neg_nat field_simps)
  have "2 ^ (k - 1) \<le> int n" using b(1) by simp
  then have "2 ^ (k - 1) \<le> c - 1" using n(2) by linarith
  then have "(2::rat) ^ (k - 1) \<le> of_int (c - 1)"
    by (simp only: numeral_power_le_of_int_cancel_iff)
  moreover have "of_int (c - 1) < 1 / a" by (simp add: c_def) linarith
  ultimately have "(2::rat) ^ (k - 1) < 1 / a" by linarith
  moreover have "ilog2 a + 1 = - int (k - 1)" using e k by simp
  ultimately have hi: "a < pow2 (ilog2 a + 1)"
    using assms by (simp add: pow2_neg_nat field_simps)
  from lo hi show ?thesis ..
qed

lemma rne_of_int [simp]: "rne (of_int k) = k"
  by (simp add: rne_def)

lemma rne_error: "\<bar>of_int (rne x) - x\<bar> \<le> 1 / 2"
proof -
  have "of_int \<lfloor>x\<rfloor> \<le> x" "x < of_int \<lfloor>x\<rfloor> + 1" by linarith+
  then show ?thesis
    by (auto simp: rne_def Let_def abs_le_iff)
qed

lemma rne_mono_int: "x \<le> of_int k \<Longrightarrow> rne x \<le> k"
proof -
  assume a: "x \<le> of_int k"
  have e: "\<bar>of_int (rne x) - x\<bar> \<le> 1 / 2" by (rule rne_error)
  then have "(of_int (rne x) :: rat) \<le> of_int k + 1 / 2" using a by linarith
  then have "(of_int (rne x) :: rat) < of_int (k + 1)" by simp
  then have "rne x < k + 1" by (simp only: of_int_less_iff)
  then show ?thesis by simp
qed

lemma rne_nonneg: "0 \<le> x \<Longrightarrow> 0 \<le> rne x"
  by (simp add: rne_def Let_def)


lemma fl_int_exact:
  assumes "\<bar>n\<bar> < 2 ^ 53"
  shows "fl (of_int n) = Fin (of_int n)"
proof (cases "n = 0")
  case True
  then show ?thesis by (simp add: fl_def)
next
  case False
  define a :: rat where "a = \<bar>of_int n\<bar>"
  define e where "e = ilog2 a"
  from False have a1: "1 \<le> a" "0 < a"
    unfolding a_def by (simp_all add: abs_if flip: of_int_minus)
  have a_int: "a = of_int \<bar>n\<bar>" by (simp add: a_def)
  from ilog2_bounds [OF a1(2)] have b: "pow2 e \<le> a" "a < pow2 (e + 1)"
    by (simp_all add: e_def)
  have e0: "0 \<le> e"
  proof (rule ccontr)
    assume "\<not> 0 \<le> e"
    then have "e + 1 \<le> 0" by simp
    then have "pow2 (e + 1) \<le> pow2 0" by (rule pow2_mono)
    with b(2) a1(1) show False by (simp add: pow2_def)
  qed
  have e52: "e \<le> 52"
  proof (rule ccontr)
    assume "\<not> e \<le> 52"
    then have "53 \<le> e" by simp
    then have "pow2 53 \<le> pow2 e" by (rule pow2_mono)
    moreover have "a < 2 ^ 53" using assms unfolding a_int
      by (simp only: of_int_less_numeral_power_cancel_iff)
    ultimately show False using b(1) by (simp add: pow2_def)
  qed
  define j where "j = nat (52 - e)"
  have q: "pow2 (e - 52) = 1 / 2 ^ j"
    using e52 by (simp add: pow2_def j_def)
  have aq: "a / pow2 (e - 52) = of_int (\<bar>n\<bar> * 2 ^ j)"
    by (simp add: q a_int)
  have m: "rne (a / pow2 (e - 52)) = \<bar>n\<bar> * 2 ^ j"
    unfolding aq by (rule rne_of_int)
  have bk: "of_int (\<bar>n\<bar> * 2 ^ j) * pow2 (e - 52) = a"
    by (simp add: q a_int)
  have mx: "max e (- 1022) = e" using e0 by simp
  have "fl (of_int n) = Fin (sgn (of_int n) * a)"
    using False e52 mx m bk
    by (simp add: fl_def Let_def flip: a_def e_def)
  also have "sgn (of_int n :: rat) * a = of_int n"
    by (simp add: a_def sgn_mult_abs)
  finally show ?thesis .
qed

lemma fl_5000: "fl 5000 = Fin 5000"
  using fl_int_exact [of 5000] by simp

lemma fl_12000: "fl 12000 = Fin 12000"
  using fl_int_exact [of 12000] by simp

lemma fl_230: "fl 230 = Fin 230"
  using fl_int_exact [of 230] by simp

lemma fl_0: "fl 0 = Fin 0"
  by (simp add: fl_def)



subsection \<open>The error of one rounding\<close>

lemma pow2_nonneg [simp]: "0 \<le> pow2 k"
  using pow2_pos [of k] by (rule less_imp_le)

lemma pow2_less_imp: "pow2 j \<le> a \<Longrightarrow> a < pow2 k \<Longrightarrow> j < k"
  by (rule ccontr) (use pow2_mono [of k j] in simp)

lemma pow2_half: "pow2 (e - 52) / 2 = pow2 (e - 53)"
proof -
  have a: "pow2 (e - 53 + 1) = pow2 (e - 53) * pow2 1" by (rule pow2_add)
  have b: "e - 53 + 1 = e - 52" by simp
  have c: "pow2 1 = 2" by (simp add: pow2_def)
  show ?thesis using a unfolding b c by simp
qed

lemma fl_pos:
  assumes "0 < a" "a < pow2 1023"
  defines "e \<equiv> max (ilog2 a) (- 1022)"
  shows "fl a = Fin (of_int (rne (a / pow2 (e - 52))) * pow2 (e - 52))"
proof -
  from ilog2_bounds [OF assms(1)] assms(2) have "ilog2 a < 1023"
    by (intro pow2_less_imp [of _ a]) simp_all
  then have "e \<le> 1022" by (simp add: e_def)
  then show ?thesis
    using assms(1) by (simp add: fl_def Let_def flip: e_def)
qed

lemma fl_error:
  assumes "0 \<le> a" "a < pow2 1023"
  shows "\<exists>y. fl a = Fin y \<and> 0 \<le> y \<and> \<bar>y - a\<bar> \<le> rounding_bound a"
proof (cases "a = 0")
  case True
  then show ?thesis by (simp add: fl_def rounding_bound_def)
next
  case False
  with assms have pos: "0 < a" by simp
  define e where "e = max (ilog2 a) (- 1022)"
  define q where "q = pow2 (e - 52)"
  define m where "m = rne (a / q)"
  have q: "0 < q" by (simp add: q_def)
  have y: "fl a = Fin (of_int m * q)"
    using fl_pos [OF pos assms(2)] by (simp add: m_def q_def e_def)
  have m0: "0 \<le> m" unfolding m_def using pos q by (intro rne_nonneg) simp
  have "\<bar>of_int m - a / q\<bar> \<le> 1 / 2" unfolding m_def by (rule rne_error)
  then have "\<bar>of_int m - a / q\<bar> * q \<le> 1 / 2 * q"
    using q by (intro mult_right_mono) simp_all
  moreover have "\<bar>of_int m - a / q\<bar> * q = \<bar>of_int m * q - a\<bar>"
    using q by (simp add: abs_mult_pos' [symmetric] field_simps flip: abs_mult_pos)
  ultimately have "\<bar>of_int m * q - a\<bar> \<le> 1 / 2 * q" by (simp only:)
  moreover have "1 / 2 * q = pow2 (e - 53)"
    using pow2_half [of e] by (simp add: q_def)
  ultimately have err: "\<bar>of_int m * q - a\<bar> \<le> pow2 (e - 53)" by (simp only:)
  have "pow2 (e - 53) \<le> rounding_bound a"
  proof (cases "- 1022 \<le> ilog2 a")
    case True
    then have "e = ilog2 a" by (simp add: e_def)
    then have "pow2 (e - 53) = pow2 (ilog2 a) * pow2 (- 53)"
      using pow2_add [of "ilog2 a" "- 53"] by simp
    also have "\<dots> \<le> a * pow2 (- 53)"
      using ilog2_bounds [OF pos] by (intro mult_right_mono) simp_all
    also have "\<dots> = \<bar>a\<bar> / 2 ^ 53" using pos by (simp add: pow2_def)
    finally show ?thesis by (simp add: rounding_bound_def)
  next
    case False
    then have "e = - 1022" by (simp add: e_def)
    then show ?thesis by (simp add: rounding_bound_def)
  qed
  with err have "\<bar>of_int m * q - a\<bar> \<le> rounding_bound a" by linarith
  moreover have "0 \<le> of_int m * q" using m0 q by simp
  ultimately show ?thesis using y by blast
qed

lemma fl_le_pow2:
  assumes "0 \<le> a" "a \<le> pow2 j" "- 1022 \<le> j" "j \<le> 1022" "fl a = Fin y"
  shows "y \<le> pow2 j"
proof (cases "a = 0")
  case True
  with assms(5) have "y = 0" by (simp add: fl_def)
  then show ?thesis using pow2_pos [of j] by simp
next
  case False
  with assms have pos: "0 < a" by simp
  define e where "e = max (ilog2 a) (- 1022)"
  define q where "q = pow2 (e - 52)"
  have q: "0 < q" by (simp add: q_def)
  have "pow2 j < pow2 1023" unfolding pow2_powi
    using assms(4) by (intro power_int_strict_increasing) simp_all
  with assms(2) have lt: "a < pow2 1023" by simp
  have y: "y = of_int (rne (a / q)) * q"
    using fl_pos [OF pos lt] assms(5) by (simp add: q_def e_def)
  have "ilog2 a \<le> j"
  proof (rule ccontr)
    assume "\<not> ilog2 a \<le> j"
    then have "j + 1 \<le> ilog2 a" by simp
    then have "pow2 (j + 1) \<le> pow2 (ilog2 a)" by (rule pow2_mono)
    also have "\<dots> \<le> a" using ilog2_bounds [OF pos] by simp
    finally have "pow2 (j + 1) \<le> pow2 j" using assms(2) by simp
    moreover have "pow2 j < pow2 (j + 1)" unfolding pow2_powi
      by (intro power_int_strict_increasing) simp_all
    ultimately show False by simp
  qed
  with assms(3) have ej: "e \<le> j" by (simp add: e_def)
  define n where "n = nat (j - e + 52)"
  have "pow2 j = pow2 (int n + (e - 52))" using ej by (simp add: n_def)
  also have "\<dots> = 2 ^ n * q" unfolding q_def pow2_add by (simp add: pow2_nat)
  finally have pj: "pow2 j = 2 ^ n * q" .
  have "a / q \<le> 2 ^ n" using assms(2) q by (simp add: pj field_simps)
  then have "a / q \<le> of_int (2 ^ n)" by simp
  then have "rne (a / q) \<le> 2 ^ n" by (rule rne_mono_int)
  then have "(of_int (rne (a / q)) :: rat) \<le> 2 ^ n"
    by (simp only: of_int_le_numeral_power_cancel_iff)
  then have "of_int (rne (a / q)) * q \<le> 2 ^ n * q"
    using q by (intro mult_right_mono) simp_all
  then show ?thesis by (simp add: y pj)
qed

section \<open>Evaluating the cost estimate\<close>

lemma ENERGY_COST_value:
  "ENERGY_COST = \<lparr>purchase = Fin (1 / 4), sale = Fin (1080863910568919 / 9007199254740992)\<rparr>"
  by code_simp

lemma costs_0:
  "calculateCosts \<lparr>activePower = Fin 0, dailyEnergy = Fin 0, voltage = Fin 230,
      timestamp = 1003\<rparr> =
   \<lparr>dailySavings = Str ''0.00'', potentialRevenue = Str ''0.00'',
      energyProduced = Str ''0.00''\<rparr>"
  by code_simp

lemma costs_12000:
  "calculateCosts \<lparr>activePower = Fin 5000, dailyEnergy = Fin 12000, voltage = Fin 230,
      timestamp = 1003\<rparr> =
   \<lparr>dailySavings = Str ''3.00'', potentialRevenue = Str ''1.44'',
      energyProduced = Str ''12.00''\<rparr>"
  by code_simp

lemma dec_digit: "n < 10 \<Longrightarrow> dec n = [digit n]"
  by (simp add: dec.simps)

lemma dec_step: "10 \<le> n \<Longrightarrow> dec n = dec (n div 10) @ [digit (n mod 10)]"
  by (subst dec.simps) simp

lemma dec_nonempty: "dec n \<noteq> []"
  by (subst dec.simps) simp

lemma point_two_decimals:
  assumes "0 \<le> n"
  shows "point 2 (dec n) = two_decimals n"
proof -
  consider "n < 10" | "10 \<le> n" "n < 100" | "100 \<le> n" by linarith
  then show ?thesis
  proof cases
    case 1
    with assms have "n div 100 = 0" "n div 10 mod 10 = 0" "n mod 10 = n" by simp_all
    with 1 show ?thesis
      by (simp add: point_def two_decimals_def dec_digit Let_def digit_def)
  next
    case 2
    then have "n div 100 = 0" "n div 10 mod 10 = n div 10" "n div 10 < 10" by simp_all
    with 2 show ?thesis
      by (simp add: point_def two_decimals_def dec_step dec_digit Let_def digit_def)
  next
    case 3
    then have a: "10 \<le> n" "10 \<le> n div 10" by simp_all
    have b: "n div 10 div 10 = n div 100" by (simp add: zdiv_zmult2_eq)
    have d: "dec n = dec (n div 100) @ [digit (n div 10 mod 10), digit (n mod 10)]"
      by (simp add: dec_step [OF a(1)] dec_step [OF a(2)] b)
    obtain h t where ht: "dec (n div 100) = h # t"
      using dec_nonempty [of "n div 100"] by (cases "dec (n div 100)") auto
    show ?thesis
      by (simp add: point_def two_decimals_def d ht Let_def)
  qed
qed

lemma round_half_up_error: "\<bar>of_int (round_half_up y) / 100 - y / 100\<bar> \<le> 1 / 200"
proof -
  have "of_int \<lfloor>y + 1 / 2\<rfloor> \<le> y + 1 / 2" "y + 1 / 2 < of_int \<lfloor>y + 1 / 2\<rfloor> + 1"
    by linarith+
  then have "\<bar>of_int (round_half_up y) - y\<bar> \<le> 1 / 2"
    unfolding round_half_up_def by linarith
  then show ?thesis by (simp add: abs_le_iff field_simps)
qed

lemma round_half_up_nonneg: "0 \<le> y \<Longrightarrow> 0 \<le> round_half_up y"
  by (simp add: round_half_up_def)

lemma toFixed_two_decimals:
  assumes "0 \<le> s" "s < 10 ^ 21"
  shows "toFixed (Fin s) 2 = Str (two_decimals (round_half_up (s * 100)))"
proof -
  have "0 \<le> round_half_up (s * 100)" using assms(1) by (intro round_half_up_nonneg) simp
  then show ?thesis using assms by (simp add: point_two_decimals)
qed

section \<open>Runs of the program\<close>

text \<open>
  The two functions that talk to the inverter, unfolded into the outcomes of the library
  calls they make, in the order they make them.
\<close>

lemma fetchSolarData_run:
  "fetchSolarData lib w =
     (case readHoldingRegisters lib 32080 2 (client w) of
        (Inl err, c1) \<Rightarrow>
          (Inr None, \<lparr>client = c1, trace = trace w @
             [ReadHoldingRegisters 32080 2, ConsoleError ''Error fetching data:'' err]\<rparr>)
      | (Inr powerData, c1) \<Rightarrow>
     (case readHoldingRegisters lib 32106 2 c1 of
        (Inl err, c2) \<Rightarrow>
          (Inr None, \<lparr>client = c2, trace = trace w @
             [ReadHoldingRegisters 32080 2, ReadHoldingRegisters 32106 2,
              ConsoleError ''Error fetching data:'' err]\<rparr>)
      | (Inr energyData, c2) \<Rightarrow>
     (case readHoldingRegisters lib 32066 1 c2 of
        (Inl err, c3) \<Rightarrow>
          (Inr None, \<lparr>client = c3, trace = trace w @
             [ReadHoldingRegisters 32080 2, ReadHoldingRegisters 32106 2,
              ReadHoldingRegisters 32066 1, ConsoleError ''Error fetching data:'' err]\<rparr>)
      | (Inr voltageData, c3) \<Rightarrow>
          (Inr (Some \<lparr>activePower = js_mul (data0 powerData) (Fin 100),
                      dailyEnergy = js_mul (data0 energyData) (Fin 100),
                      voltage = js_mul (data0 voltageData) (Fin 10),
                      timestamp = clock lib c3\<rparr>),
           \<lparr>client = c3, trace = trace w @
             [ReadHoldingRegisters 32080 2, ReadHoldingRegisters 32106 2,
              ReadHoldingRegisters 32066 1]\<rparr>))))"
  by (simp add: fetchSolarData_def try_catch_def bind_def ret_def emit_def console_error_def
      call_readHoldingRegisters_def new_Date_def split: prod.splits sum.splits)

lemma connectToInverter_run:
  "connectToInverter lib env w =
     (case connectTCP lib (INVERTER_IP env) MODBUS_PORT (client w) of
        (Inl err, c) \<Rightarrow>
          (Inr (), \<lparr>client = c, trace = trace w @
             [ConnectTCP (INVERTER_IP env) MODBUS_PORT, ConsoleError ''Connection error:'' err]\<rparr>)
      | (Inr u, c) \<Rightarrow>
          (Inr (), \<lparr>client = setID lib UNIT_ID c, trace = trace w @
             [ConnectTCP (INVERTER_IP env) MODBUS_PORT, SetID UNIT_ID,
              ConsoleLog ''Connected to Huawei inverter'']\<rparr>))"
  by (simp add: connectToInverter_def try_catch_def bind_def emit_def console_error_def
      console_log_def call_connectTCP_def call_setID_def split: prod.splits sum.splits)

lemma data0_Cons: "data0 (x # xs) = Fin (of_nat (unat x))"
  by (simp add: data0_def)

lemma solar_data_route_run:
  "solar_data_route lib w =
     (case fetchSolarData lib w of
        (Inl err, w') \<Rightarrow> (Inl err, w')
      | (Inr None, w') \<Rightarrow> (Inr \<lparr>status = 500, body = Error ''Failed to fetch data''\<rparr>, w')
      | (Inr (Some d), w') \<Rightarrow>
          (Inr \<lparr>status = 200, body = SolarData d (calculateCosts d)\<rparr>, w'))"
  by (simp add: solar_data_route_def bind_def ret_def Let_def
      split: prod.splits sum.splits option.splits)

subsection \<open>The simulated inverter\<close>

lemma sim_read_open:
  "0 < k \<Longrightarrow>
   readHoldingRegisters (sim_modbus r) a n
     \<lparr>port_open = True, reads_left = k, regs = rf, time = t\<rparr> =
   (Inr (take n (rf a)), \<lparr>port_open = True, reads_left = k - 1, regs = rf, time = t + 1\<rparr>)"
  by (simp add: sim_modbus_def)

lemma sim_read_timeout:
  "readHoldingRegisters (sim_modbus r) a n
     \<lparr>port_open = True, reads_left = 0, regs = rf, time = t\<rparr> =
   (Inl TransactionTimedOutError, \<lparr>port_open = True, reads_left = 0, regs = rf, time = t + 1\<rparr>)"
  by (simp add: sim_modbus_def)

lemma sim_read_closed:
  "readHoldingRegisters (sim_modbus r) a n
     \<lparr>port_open = False, reads_left = k, regs = rf, time = t\<rparr> =
   (Inl PortNotOpenError, \<lparr>port_open = False, reads_left = k, regs = rf, time = t\<rparr>)"
  by (simp add: sim_modbus_def)

lemma sim_clock: "clock (sim_modbus r) s = time s"
  by (simp add: sim_modbus_def)

lemma sim_connect_refused:
  "connectTCP (sim_modbus False) h p s = (Inl (OtherError ''ECONNREFUSED''), s)"
  by (simp add: sim_modbus_def)

section \<open>Decoding the registers\<close>



text \<open>
  C4, which the program does not do. A group read with a word count of 2 would be
  combined, most significant word first, into one value before scaling. The program asks
  for the two words and scales the first alone: on a device holding the 32-bit values 50
  and 120 as the words \<open>[0, 50]\<close> and \<open>[0, 120]\<close>, it reports a power and an
  energy of 0, where the combined values scale to 5000 and 12000.
\<close>

theorem second_word_ignored:
  "fst (fetchSolarData (sim_modbus True) (sim_world True 3 regs_wide)) =
     Inr (Some \<lparr>activePower = Fin 0, dailyEnergy = Fin 0, voltage = Fin 230,
                timestamp = 1003\<rparr>) \<and>
   spec_combine_words (regs_wide 32080) * 100 = 5000 \<and>
   spec_combine_words (regs_wide 32106) * 100 = 12000"
  by (simp add: fetchSolarData_run sim_world_def sim_read_open
      regs_wide_def data0_Cons sim_clock fl_0 fl_230 spec_combine_words_def)

section \<open>Failures of a sampling cycle\<close>

text \<open>
  C2. A read that is rejected ends the cycle: \<open>fetchSolarData\<close> issues no further
  read, logs the error and returns \<open>null\<close>, whichever of the three reads it is. A
  Reading is returned only when the three reads of this very call have resolved, and it
  is built from their three responses and nothing else.
\<close>

theorem failed_read_aborts:
  "(readHoldingRegisters lib 32080 2 (client w) = (Inl err1, a1) \<longrightarrow>
      fetchSolarData lib w =
        (Inr None, \<lparr>client = a1, trace = trace w @
           [ReadHoldingRegisters 32080 2, ConsoleError ''Error fetching data:'' err1]\<rparr>)) \<and>
   (readHoldingRegisters lib 32080 2 (client w) = (Inr p2, b1) \<and>
    readHoldingRegisters lib 32106 2 b1 = (Inl err2, b2) \<longrightarrow>
      fetchSolarData lib w =
        (Inr None, \<lparr>client = b2, trace = trace w @
           [ReadHoldingRegisters 32080 2, ReadHoldingRegisters 32106 2,
            ConsoleError ''Error fetching data:'' err2]\<rparr>)) \<and>
   (readHoldingRegisters lib 32080 2 (client w) = (Inr p3, c1) \<and>
    readHoldingRegisters lib 32106 2 c1 = (Inr e3, c2) \<and>
    readHoldingRegisters lib 32066 1 c2 = (Inl err3, c3) \<longrightarrow>
      fetchSolarData lib w =
        (Inr None, \<lparr>client = c3, trace = trace w @
           [ReadHoldingRegisters 32080 2, ReadHoldingRegisters 32106 2,
            ReadHoldingRegisters 32066 1, ConsoleError ''Error fetching data:'' err3]\<rparr>)) \<and>
   (fst (fetchSolarData lib w) = Inr (Some r) \<longrightarrow>
      (\<exists>p d1 e d2 v d3.
         readHoldingRegisters lib 32080 2 (client w) = (Inr p, d1) \<and>
         readHoldingRegisters lib 32106 2 d1 = (Inr e, d2) \<and>
         readHoldingRegisters lib 32066 1 d2 = (Inr v, d3) \<and>
         r = \<lparr>activePower = js_mul (data0 p) (Fin 100),
              dailyEnergy = js_mul (data0 e) (Fin 100),
              voltage = js_mul (data0 v) (Fin 10),
              timestamp = clock lib d3\<rparr>))"
proof (intro conjI impI)
  assume "fst (fetchSolarData lib w) = Inr (Some r)"
  then show "\<exists>p d1 e d2 v d3.
         readHoldingRegisters lib 32080 2 (client w) = (Inr p, d1) \<and>
         readHoldingRegisters lib 32106 2 d1 = (Inr e, d2) \<and>
         readHoldingRegisters lib 32066 1 d2 = (Inr v, d3) \<and>
         r = \<lparr>activePower = js_mul (data0 p) (Fin 100),
              dailyEnergy = js_mul (data0 e) (Fin 100),
              voltage = js_mul (data0 v) (Fin 10),
              timestamp = clock lib d3\<rparr>"
    unfolding fetchSolarData_run
    by (auto split: prod.splits sum.splits)
qed (simp_all add: fetchSolarData_run)

theorem failed_read_aborts_witness:
  "fetchSolarData (sim_modbus True) (sim_world True 0 regs_first) =
     (Inr None,
      \<lparr>client = \<lparr>port_open = True, reads_left = 0, regs = regs_first, time = 1001\<rparr>,
       trace = [ReadHoldingRegisters 32080 2,
                ConsoleError ''Error fetching data:'' TransactionTimedOutError]\<rparr>) \<and>
   fetchSolarData (sim_modbus True) (sim_world True 1 regs_first) =
     (Inr None,
      \<lparr>client = \<lparr>port_open = True, reads_left = 0, regs = regs_first, time = 1002\<rparr>,
       trace = [ReadHoldingRegisters 32080 2, ReadHoldingRegisters 32106 2,
                ConsoleError ''Error fetching data:'' TransactionTimedOutError]\<rparr>) \<and>
   fetchSolarData (sim_modbus True) (sim_world True 2 regs_first) =
     (Inr None,
      \<lparr>client = \<lparr>port_open = True, reads_left = 0, regs = regs_first, time = 1003\<rparr>,
       trace = [ReadHoldingRegisters 32080 2, ReadHoldingRegisters 32106 2,
                ReadHoldingRegisters 32066 1,
                ConsoleError ''Error fetching data:'' TransactionTimedOutError]\<rparr>) \<and>
   (\<exists>p d1 e d2 v d3.
      readHoldingRegisters (sim_modbus True) 32080 2
        (client (sim_world True 3 regs_first)) = (Inr p, d1) \<and>
      readHoldingRegisters (sim_modbus True) 32106 2 d1 = (Inr e, d2) \<and>
      readHoldingRegisters (sim_modbus True) 32066 1 d2 = (Inr v, d3) \<and>
      \<lparr>activePower = Fin 5000, dailyEnergy = Fin 12000, voltage = Fin 230,
         timestamp = 1003\<rparr> =
      \<lparr>activePower = js_mul (data0 p) (Fin 100),
         dailyEnergy = js_mul (data0 e) (Fin 100),
         voltage = js_mul (data0 v) (Fin 10),
         timestamp = clock (sim_modbus True) d3\<rparr>)"
proof -
  let ?lib = "sim_modbus True"
  let ?s = "\<lambda>k t. \<lparr>port_open = True, reads_left = k, regs = regs_first, time = t\<rparr>"
  have t1: "readHoldingRegisters ?lib 32080 2 (client (sim_world True 0 regs_first)) =
      (Inl TransactionTimedOutError, ?s 0 1001)"
    by (simp add: sim_world_def sim_read_timeout)
  have p1: "readHoldingRegisters ?lib 32080 2 (client (sim_world True 1 regs_first)) =
      (Inr [50, 0], ?s 0 1001)"
    by (simp add: sim_world_def sim_read_open regs_first_def)
  have t2: "readHoldingRegisters ?lib 32106 2 (?s 0 1001) =
      (Inl TransactionTimedOutError, ?s 0 1002)"
    by (simp add: sim_read_timeout)
  have p2: "readHoldingRegisters ?lib 32080 2 (client (sim_world True 2 regs_first)) =
      (Inr [50, 0], ?s 1 1001)"
    by (simp add: sim_world_def sim_read_open regs_first_def)
  have e2: "readHoldingRegisters ?lib 32106 2 (?s 1 1001) = (Inr [120, 0], ?s 0 1002)"
    by (simp add: sim_read_open regs_first_def)
  have t3: "readHoldingRegisters ?lib 32066 1 (?s 0 1002) =
      (Inl TransactionTimedOutError, ?s 0 1003)"
    by (simp add: sim_read_timeout)
  have ok: "fst (fetchSolarData ?lib (sim_world True 3 regs_first)) =
     Inr (Some \<lparr>activePower = Fin 5000, dailyEnergy = Fin 12000, voltage = Fin 230,
                timestamp = 1003\<rparr>)"
    by (simp add: fetchSolarData_run sim_world_def sim_read_open
        regs_first_def data0_Cons sim_clock fl_5000 fl_12000 fl_230)
  note c1 = failed_read_aborts [THEN conjunct1, THEN mp, OF t1]
  note c2 = failed_read_aborts [THEN conjunct2, THEN conjunct1, THEN mp, OF conjI [OF p1 t2]]
  note c3 = failed_read_aborts [THEN conjunct2, THEN conjunct2, THEN conjunct1, THEN mp,
      OF conjI [OF p2 conjI [OF e2 t3]]]
  note c4 = failed_read_aborts [THEN conjunct2, THEN conjunct2, THEN conjunct2, THEN mp, OF ok]
  from c1 c2 c3 c4 show ?thesis
    by (simp only: sim_world_def world.simps append_Nil simp_thms)
qed

text \<open>
  C5. When the sampling cycle has failed, that is \<open>fetchSolarData\<close> returned
  \<open>null\<close>, the route \<open>/api/solar-data\<close> answers with status 500 and an error
  body, not with a Reading of any kind; it does nothing else.
\<close>

theorem failed_sample_is_error_response:
  assumes "fst (fetchSolarData lib w) = Inr None"
  shows "fst (solar_data_route lib w) =
           Inr \<lparr>status = 500, body = Error ''Failed to fetch data''\<rparr> \<and>
         snd (solar_data_route lib w) = snd (fetchSolarData lib w)"
proof -
  obtain r w' where f: "fetchSolarData lib w = (r, w')"
    by (cases "fetchSolarData lib w")
  with assms have "r = Inr None" by simp
  with f show ?thesis by (simp add: solar_data_route_run)
qed

theorem failed_sample_is_error_response_witness:
  "fst (solar_data_route (sim_modbus True) (sim_world True 1 regs_first)) =
     Inr \<lparr>status = 500, body = Error ''Failed to fetch data''\<rparr> \<and>
   snd (solar_data_route (sim_modbus True) (sim_world True 1 regs_first)) =
     snd (fetchSolarData (sim_modbus True) (sim_world True 1 regs_first))"
proof -
  have "fst (fetchSolarData (sim_modbus True) (sim_world True 1 regs_first)) = Inr None"
    by (simp add: fetchSolarData_run sim_world_def sim_read_open sim_read_timeout)
  then show ?thesis by (rule failed_sample_is_error_response)
qed

section \<open>Connecting\<close>

text \<open>
  C10. \<open>connectToInverter\<close> returns normally whatever the connection attempt does:
  it never throws. When \<open>connectTCP\<close> is rejected, the error is written to the
  console and to nothing else: the unit identifier is not set and the caller is not told.
\<close>

theorem connect_never_throws:
  "fst (connectToInverter lib env w) = Inr () \<and>
   (connectTCP lib (INVERTER_IP env) MODBUS_PORT (client w) = (Inl err, c) \<longrightarrow>
      snd (connectToInverter lib env w) =
        \<lparr>client = c, trace = trace w @
           [ConnectTCP (INVERTER_IP env) MODBUS_PORT,
            ConsoleError ''Connection error:'' err]\<rparr>)"
  by (simp add: connectToInverter_run split: prod.splits sum.splits)

theorem connect_never_throws_witness:
  "fst (connectToInverter (sim_modbus False) None (sim_world False 3 regs_first)) = Inr () \<and>
   snd (connectToInverter (sim_modbus False) None (sim_world False 3 regs_first)) =
     \<lparr>client = \<lparr>port_open = False, reads_left = 3, regs = regs_first, time = 1000\<rparr>,
      trace = [ConnectTCP ''192.168.1.100'' 502,
               ConsoleError ''Connection error:'' (OtherError ''ECONNREFUSED'')]\<rparr>"
  using connect_never_throws [of "sim_modbus False" None "sim_world False 3 regs_first"
      "OtherError ''ECONNREFUSED''"
      "\<lparr>port_open = False, reads_left = 3, regs = regs_first, time = 1000\<rparr>"]
  by (simp add: sim_connect_refused sim_world_def INVERTER_IP_def MODBUS_PORT_def)

text \<open>
  C6, as the program has it. \<open>fetchSolarData\<close> never connects: in every state of
  the session its first call into the library is the read at 32080, and no call of
  \<open>connectTCP\<close> follows. When that read is rejected, as it is on a session that is
  not connected, the function returns \<open>null\<close> after this one read, the error being
  logged, and no Reading is produced.
\<close>

theorem sample_never_connects:
  "(\<exists>rest. trace (snd (fetchSolarData lib w)) =
             trace w @ ReadHoldingRegisters 32080 2 # rest \<and>
           (\<forall>h p. ConnectTCP h p \<notin> set rest)) \<and>
   (readHoldingRegisters lib 32080 2 (client w) = (Inl err, c) \<longrightarrow>
      fetchSolarData lib w =
        (Inr None, \<lparr>client = c, trace = trace w @
           [ReadHoldingRegisters 32080 2, ConsoleError ''Error fetching data:'' err]\<rparr>))"
  by (simp add: fetchSolarData_run split: prod.splits sum.splits)

theorem sample_never_connects_witness:
  "(\<exists>rest. trace (snd (fetchSolarData (sim_modbus False) (sim_world False 3 regs_first))) =
             trace (sim_world False 3 regs_first) @ ReadHoldingRegisters 32080 2 # rest \<and>
           (\<forall>h p. ConnectTCP h p \<notin> set rest)) \<and>
   fetchSolarData (sim_modbus False) (sim_world False 3 regs_first) =
     (Inr None,
      \<lparr>client = \<lparr>port_open = False, reads_left = 3, regs = regs_first, time = 1000\<rparr>,
       trace = trace (sim_world False 3 regs_first) @
         [ReadHoldingRegisters 32080 2,
          ConsoleError ''Error fetching data:'' PortNotOpenError]\<rparr>)"
proof -
  have h: "readHoldingRegisters (sim_modbus False) 32080 2
             (client (sim_world False 3 regs_first)) =
           (Inl PortNotOpenError,
            \<lparr>port_open = False, reads_left = 3, regs = regs_first, time = 1000\<rparr>)"
    by (simp add: sim_world_def sim_read_closed)
  from sample_never_connects [THEN conjunct1]
    sample_never_connects [THEN conjunct2, THEN mp, OF h]
  show ?thesis by (rule conjI)
qed

text \<open>
  C6 as stated fails: on a closed port, with a host that refuses the connection, the
  sampling makes no connection attempt and does issue a register read.
\<close>

theorem no_connect_on_sample_counterexample:
  "fetchSolarData (sim_modbus False) (sim_world False 3 regs_first) =
     (Inr None,
      \<lparr>client = \<lparr>port_open = False, reads_left = 3, regs = regs_first, time = 1000\<rparr>,
       trace = [ReadHoldingRegisters 32080 2,
                ConsoleError ''Error fetching data:'' PortNotOpenError]\<rparr>)"
  by (simp add: fetchSolarData_run sim_world_def sim_read_closed)

section \<open>The cost estimate\<close>

text \<open>
  C3. \<open>calculateCosts\<close> has no failing case: for every finite daily energy that is
  not negative it yields three finite, non-negative numbers, the energy in kWh
  \<open>k = dailyEnergy / 1000\<close>, the savings \<open>s = k * purchase\<close> and the revenue
  \<open>r = k * sale\<close>, each operation being the exact one rounded once to binary64, with
  the rates of \<open>ENERGY_COST\<close> (the binary64 values of 0.25 and 0.12). These three
  numbers are what it returns, passed through \<open>toFixed(2)\<close>.
\<close>

theorem calculateCosts_total:
  assumes "dailyEnergy data = Fin x" "0 \<le> x" "x < 2 ^ 1024"
  shows "\<exists>k s r p c.
      purchase ENERGY_COST = Fin p \<and> \<bar>p - 25 / 100\<bar> \<le> rounding_bound (25 / 100) \<and>
      sale ENERGY_COST = Fin c \<and> \<bar>c - 12 / 100\<bar> \<le> rounding_bound (12 / 100) \<and>
      calculateCosts data =
        \<lparr>dailySavings = toFixed (Fin s) 2, potentialRevenue = toFixed (Fin r) 2,
         energyProduced = toFixed (Fin k) 2\<rparr> \<and>
      0 \<le> k \<and> \<bar>k - x / 1000\<bar> \<le> rounding_bound (x / 1000) \<and>
      0 \<le> s \<and> \<bar>s - k * p\<bar> \<le> rounding_bound (k * p) \<and>
      0 \<le> r \<and> \<bar>r - k * c\<bar> \<le> rounding_bound (k * c)"
proof -
  define p :: rat where "p = 1 / 4"
  define c :: rat where "c = 1080863910568919 / 9007199254740992"
  have pc: "purchase ENERGY_COST = Fin p" "sale ENERGY_COST = Fin c"
    by (simp_all add: ENERGY_COST_value p_def c_def)
  have pe: "\<bar>p - 25 / 100\<bar> \<le> rounding_bound (25 / 100)"
    by (simp add: p_def rounding_bound_def)
  have ce: "\<bar>c - 12 / 100\<bar> \<le> rounding_bound (12 / 100)"
    by (simp add: c_def rounding_bound_def)
  have big: "pow2 1022 < pow2 1023" unfolding pow2_powi
    by (intro power_int_strict_increasing) simp_all
  have "x / 1000 \<le> 2 ^ 1024 / 1000" using assms(3) by simp
  also have "\<dots> \<le> (2::rat) ^ 1022" by simp
  finally have x1: "x / 1000 \<le> pow2 1022" by (simp add: pow2_def)
  with big have x2: "x / 1000 < pow2 1023" by simp
  have x0: "0 \<le> x / 1000" using assms(2) by simp
  from fl_error [OF x0 x2] obtain k where
    k: "fl (x / 1000) = Fin k" "0 \<le> k" "\<bar>k - x / 1000\<bar> \<le> rounding_bound (x / 1000)"
    by blast
  have k1: "k \<le> pow2 1022" by (rule fl_le_pow2 [OF x0 x1 _ _ k(1)]) simp_all
  have "k * p \<le> k" using k(2) by (simp add: p_def)
  with k1 big have kp: "k * p < pow2 1023" by simp
  have "k * c \<le> k * 1" using k(2) by (intro mult_left_mono) (simp_all add: c_def)
  with k1 big have kc: "k * c < pow2 1023" by simp
  have kp0: "0 \<le> k * p" and kc0: "0 \<le> k * c" using k(2) by (simp_all add: p_def c_def)
  from fl_error [OF kp0 kp] obtain s where
    s: "fl (k * p) = Fin s" "0 \<le> s" "\<bar>s - k * p\<bar> \<le> rounding_bound (k * p)"
    by blast
  from fl_error [OF kc0 kc] obtain r where
    r: "fl (k * c) = Fin r" "0 \<le> r" "\<bar>r - k * c\<bar> \<le> rounding_bound (k * c)"
    by blast
  have "calculateCosts data =
        \<lparr>dailySavings = toFixed (Fin s) 2, potentialRevenue = toFixed (Fin r) 2,
         energyProduced = toFixed (Fin k) 2\<rparr>"
    using assms(1) k(1) s(1) r(1) by (simp add: calculateCosts_def Let_def pc)
  with pc pe ce k s r show ?thesis by blast
qed

theorem calculateCosts_total_witness:
  "\<exists>k s r p c.
      purchase ENERGY_COST = Fin p \<and> \<bar>p - 25 / 100\<bar> \<le> rounding_bound (25 / 100) \<and>
      sale ENERGY_COST = Fin c \<and> \<bar>c - 12 / 100\<bar> \<le> rounding_bound (12 / 100) \<and>
      calculateCosts \<lparr>activePower = Fin 5000, dailyEnergy = Fin 12000, voltage = Fin 230,
          timestamp = 1003\<rparr> =
        \<lparr>dailySavings = toFixed (Fin s) 2, potentialRevenue = toFixed (Fin r) 2,
         energyProduced = toFixed (Fin k) 2\<rparr> \<and>
      0 \<le> k \<and> \<bar>k - 12000 / 1000\<bar> \<le> rounding_bound (12000 / 1000) \<and>
      0 \<le> s \<and> \<bar>s - k * p\<bar> \<le> rounding_bound (k * p) \<and>
      0 \<le> r \<and> \<bar>r - k * c\<bar> \<le> rounding_bound (k * c)"
  by (rule calculateCosts_total) simp_all

text \<open>
  C7, as the program has it. The rounding to two decimals is done by \<open>calculateCosts\<close>
  itself: for a daily energy from 0 to \<open>10 ^ 23\<close> Wh, each of the three values it
  returns is a decimal string with two fraction digits, naming the hundredth nearest to
  the computed number (the upper one on a tie). The computed numbers themselves are local
  to the function and are not returned.
\<close>

theorem costs_rounded_to_cents:
  assumes "dailyEnergy data = Fin x" "0 \<le> x" "x \<le> 10 ^ 23"
  shows "\<exists>k s r.
      js_div (Fin x) (Fin 1000) = Fin k \<and>
      js_mul (Fin k) (purchase ENERGY_COST) = Fin s \<and>
      js_mul (Fin k) (sale ENERGY_COST) = Fin r \<and>
      calculateCosts data =
        \<lparr>dailySavings = Str (two_decimals (round_half_up (s * 100))),
         potentialRevenue = Str (two_decimals (round_half_up (r * 100))),
         energyProduced = Str (two_decimals (round_half_up (k * 100)))\<rparr> \<and>
      0 \<le> round_half_up (s * 100) \<and> \<bar>of_int (round_half_up (s * 100)) / 100 - s\<bar> \<le> 1 / 200 \<and>
      0 \<le> round_half_up (r * 100) \<and> \<bar>of_int (round_half_up (r * 100)) / 100 - r\<bar> \<le> 1 / 200 \<and>
      0 \<le> round_half_up (k * 100) \<and> \<bar>of_int (round_half_up (k * 100)) / 100 - k\<bar> \<le> 1 / 200"
proof -
  define p :: rat where "p = 1 / 4"
  define c :: rat where "c = 1080863910568919 / 9007199254740992"
  have pc: "purchase ENERGY_COST = Fin p" "sale ENERGY_COST = Fin c"
    by (simp_all add: ENERGY_COST_value p_def c_def)
  have b67: "pow2 67 < 10 ^ 21" "pow2 67 < pow2 1023" by (simp_all add: pow2_def)
  have "x / 1000 \<le> 10 ^ 23 / 1000" using assms(3) by simp
  also have "\<dots> \<le> (2::rat) ^ 67" by simp
  finally have x1: "x / 1000 \<le> pow2 67" by (simp add: pow2_def)
  with b67 have x2: "x / 1000 < pow2 1023" by simp
  have x0: "0 \<le> x / 1000" using assms(2) by simp
  from fl_error [OF x0 x2] obtain k where k: "fl (x / 1000) = Fin k" "0 \<le> k"
    by blast
  have k1: "k \<le> pow2 67" by (rule fl_le_pow2 [OF x0 x1 _ _ k(1)]) simp_all
  have kp1: "k * p \<le> pow2 67" using k(2) k1 by (simp add: p_def)
  have "k * c \<le> k * 1" using k(2) by (intro mult_left_mono) (simp_all add: c_def)
  with k1 have kc1: "k * c \<le> pow2 67" by simp
  have kp0: "0 \<le> k * p" and kc0: "0 \<le> k * c" using k(2) by (simp_all add: p_def c_def)
  from kp1 kc1 b67 have kp2: "k * p < pow2 1023" and kc2: "k * c < pow2 1023" by simp_all
  from fl_error [OF kp0 kp2] obtain s where s: "fl (k * p) = Fin s" "0 \<le> s" by blast
  from fl_error [OF kc0 kc2] obtain r where r: "fl (k * c) = Fin r" "0 \<le> r" by blast
  have s1: "s \<le> pow2 67" by (rule fl_le_pow2 [OF kp0 kp1 _ _ s(1)]) simp_all
  have r1: "r \<le> pow2 67" by (rule fl_le_pow2 [OF kc0 kc1 _ _ r(1)]) simp_all
  from k1 s1 r1 b67 have lt: "k < 10 ^ 21" "s < 10 ^ 21" "r < 10 ^ 21" by simp_all
  have "calculateCosts data =
        \<lparr>dailySavings = toFixed (Fin s) 2, potentialRevenue = toFixed (Fin r) 2,
         energyProduced = toFixed (Fin k) 2\<rparr>"
    using assms(1) k(1) s(1) r(1) by (simp add: calculateCosts_def Let_def pc)
  then have "calculateCosts data =
        \<lparr>dailySavings = Str (two_decimals (round_half_up (s * 100))),
         potentialRevenue = Str (two_decimals (round_half_up (r * 100))),
         energyProduced = Str (two_decimals (round_half_up (k * 100)))\<rparr>"
    by (simp only: toFixed_two_decimals [OF k(2) lt(1)] toFixed_two_decimals [OF s(2) lt(2)]
        toFixed_two_decimals [OF r(2) lt(3)])
  moreover have "js_div (Fin x) (Fin 1000) = Fin k" using k(1) by simp
  moreover have "js_mul (Fin k) (purchase ENERGY_COST) = Fin s" using s(1) by (simp add: pc)
  moreover have "js_mul (Fin k) (sale ENERGY_COST) = Fin r" using r(1) by (simp add: pc)
  moreover have "0 \<le> round_half_up (s * 100)" "0 \<le> round_half_up (r * 100)"
    "0 \<le> round_half_up (k * 100)"
    using k(2) s(2) r(2) by (simp_all add: round_half_up_nonneg)
  moreover have "\<bar>of_int (round_half_up (s * 100)) / 100 - s\<bar> \<le> 1 / 200"
    "\<bar>of_int (round_half_up (r * 100)) / 100 - r\<bar> \<le> 1 / 200"
    "\<bar>of_int (round_half_up (k * 100)) / 100 - k\<bar> \<le> 1 / 200"
    using round_half_up_error [of "s * 100"] round_half_up_error [of "r * 100"]
      round_half_up_error [of "k * 100"] by simp_all
  ultimately show ?thesis by blast
qed

theorem costs_rounded_to_cents_witness:
  "\<exists>k s r.
      js_div (Fin 300) (Fin 1000) = Fin k \<and>
      js_mul (Fin k) (purchase ENERGY_COST) = Fin s \<and>
      js_mul (Fin k) (sale ENERGY_COST) = Fin r \<and>
      calculateCosts \<lparr>activePower = Fin 5000, dailyEnergy = Fin 300, voltage = Fin 230,
          timestamp = 1003\<rparr> =
        \<lparr>dailySavings = Str (two_decimals (round_half_up (s * 100))),
         potentialRevenue = Str (two_decimals (round_half_up (r * 100))),
         energyProduced = Str (two_decimals (round_half_up (k * 100)))\<rparr> \<and>
      0 \<le> round_half_up (s * 100) \<and> \<bar>of_int (round_half_up (s * 100)) / 100 - s\<bar> \<le> 1 / 200 \<and>
      0 \<le> round_half_up (r * 100) \<and> \<bar>of_int (round_half_up (r * 100)) / 100 - r\<bar> \<le> 1 / 200 \<and>
      0 \<le> round_half_up (k * 100) \<and> \<bar>of_int (round_half_up (k * 100)) / 100 - k\<bar> \<le> 1 / 200"
  by (rule costs_rounded_to_cents) simp_all

text \<open>
  C7 as stated fails: for a daily energy of 300 Wh the savings computed are the binary64
  number just below 0.075, and the value the estimator returns for them is the string
  \<open>0.07\<close>.
\<close>

theorem costs_are_rounded_counterexample:
  "js_mul (js_div (Fin 300) (Fin 1000)) (purchase ENERGY_COST) =
     Fin (5404319552844595 / 72057594037927936) \<and>
   dailySavings (calculateCosts \<lparr>activePower = Fin 5000, dailyEnergy = Fin 300,
     voltage = Fin 230, timestamp = 1003\<rparr>) = Str ''0.07''"
  by code_simp

text \<open>
  C8, which the program does not do. The inverter holds the power and the energy as
  two-word values, most significant word first, so raw registers of 50 and 120 arrive as
  the words \<open>[0, 50]\<close> and \<open>[0, 120]\<close>. On them the route answers with status
  200, an active power of 0, a daily energy of 0 and the costs \<open>0.00\<close>, \<open>0.00\<close>,
  \<open>0.00\<close>, where the scenario expects 5000, 12000, \<open>12.00\<close>, \<open>3.00\<close> and
  \<open>1.44\<close>. The estimator is not what fails: on a daily energy of 12000 it returns
  the three expected strings. What fails is the decoding, which drops the second word.
\<close>

theorem end_to_end_wide_registers:
  "fst (solar_data_route (sim_modbus True) (sim_world True 3 regs_wide)) =
     Inr \<lparr>status = 200,
          body = SolarData
            \<lparr>activePower = Fin 0, dailyEnergy = Fin 0, voltage = Fin 230,
               timestamp = 1003\<rparr>
            \<lparr>dailySavings = Str ''0.00'', potentialRevenue = Str ''0.00'',
               energyProduced = Str ''0.00''\<rparr>\<rparr> \<and>
   spec_combine_words (regs_wide 32080) = 50 \<and>
   spec_combine_words (regs_wide 32106) = 120 \<and>
   calculateCosts \<lparr>activePower = Fin 5000, dailyEnergy = Fin 12000, voltage = Fin 230,
      timestamp = 1003\<rparr> =
     \<lparr>dailySavings = Str ''3.00'', potentialRevenue = Str ''1.44'',
        energyProduced = Str ''12.00''\<rparr>"
proof -
  have "fetchSolarData (sim_modbus True) (sim_world True 3 regs_wide) =
      (Inr (Some \<lparr>activePower = Fin 0, dailyEnergy = Fin 0, voltage = Fin 230,
                  timestamp = 1003\<rparr>),
       \<lparr>client = \<lparr>port_open = True, reads_left = 0, regs = regs_wide, time = 1003\<rparr>,
          trace = [ReadHoldingRegisters 32080 2, ReadHoldingRegisters 32106 2,
                   ReadHoldingRegisters 32066 1]\<rparr>)"
    by (simp add: fetchSolarData_run sim_world_def sim_read_open
        regs_wide_def data0_Cons sim_clock fl_0 fl_230)
  then have "fst (solar_data_route (sim_modbus True) (sim_world True 3 regs_wide)) =
     Inr \<lparr>status = 200,
          body = SolarData
            \<lparr>activePower = Fin 0, dailyEnergy = Fin 0, voltage = Fin 230,
               timestamp = 1003\<rparr>
            \<lparr>dailySavings = Str ''0.00'', potentialRevenue = Str ''0.00'',
               energyProduced = Str ''0.00''\<rparr>\<rparr>"
    by (simp add: solar_data_route_run costs_0)
  moreover have "spec_combine_words (regs_wide 32080) = 50"
    "spec_combine_words (regs_wide 32106) = 120"
    by (simp_all add: regs_wide_def spec_combine_words_def)
  ultimately show ?thesis by (simp only: costs_12000 simp_thms)
qed

end
